theory Spec2Isabelle
  imports Complex_Main
begin

section \<open>The signal-processing core of the two applications\<close>

text \<open>
  The functions of \<^verbatim>\<open>PCB_signal_processing_2.py\<close> and
  \<^verbatim>\<open>Audio_signal_processing.py\<close> that synthesise, disturb, filter and analyse a
  sample buffer. A buffer (a one-dimensional numpy array) is a list; a sample (a float64) is
  idealised as a \<^typ>\<open>real\<close>, so rounding is not modelled. An exception of Python is a
  value \<open>Inl e\<close> of the result.
\<close>

datatype error = ValueError | ZeroDivisionError | IndexError

type_synonym buffer = "real list"

subsection \<open>Library routines the source calls\<close>

text \<open>
  Elementwise \<^verbatim>\<open>x + y\<close> of two one-dimensional arrays: equal lengths add pointwise, an
  array of length one is broadcast, any other pair of shapes raises.
\<close>

definition np_add :: "buffer \<Rightarrow> buffer \<Rightarrow> error + buffer" where
  "np_add xs ys =
     (if length xs = length ys then Inr (map2 (+) xs ys)
      else if length xs = 1 then Inr (map (\<lambda>y. hd xs + y) ys)
      else if length ys = 1 then Inr (map (\<lambda>x. x + hd ys) xs)
      else Inl ValueError)"

text \<open>
  The random source behind \<^verbatim>\<open>np.random\<close>: the raw variates in the order they are
  drawn. One call of \<^verbatim>\<open>add_noise\<close> reads each of the three streams in at most one
  library call.
\<close>

record random_source =
  normal_draw :: "nat \<Rightarrow> real"
  integer_draw :: "nat \<Rightarrow> nat"
  uniform_draw :: "nat \<Rightarrow> real"

text \<open>
  Modelled from the spec: \<^verbatim>\<open>np.random.normal(loc, scale, size)\<close> is a library routine
  outside src/. It gives \<open>size\<close> normally distributed samples of mean \<open>loc\<close> and
  standard deviation \<open>scale\<close> (spec 4.4), and rejects a negative \<open>scale\<close>.
\<close>

definition random_normal :: "random_source \<Rightarrow> real \<Rightarrow> real \<Rightarrow> nat \<Rightarrow> error + buffer" where
  "random_normal rs loc scale sz =
     (if scale < 0 then Inl ValueError
      else Inr (map (\<lambda>i. loc + scale * normal_draw rs i) [0..<sz]))"

text \<open>
  Modelled from the spec: \<^verbatim>\<open>np.random.randint(low, high, size)\<close> is a library routine
  outside src/. It gives \<open>size\<close> integers of the half-open range from \<open>low\<close> to
  \<open>high\<close>, drawn with replacement (spec 4.4); an empty request is answered with an empty
  array before the range is looked at, otherwise an empty range raises.
\<close>

definition random_randint :: "random_source \<Rightarrow> int \<Rightarrow> int \<Rightarrow> nat \<Rightarrow> error + int list" where
  "random_randint rs low high sz =
     (if sz = 0 then Inr []
      else if high \<le> low then Inl ValueError
      else Inr (map (\<lambda>i. low + int (integer_draw rs i) mod (high - low)) [0..<sz]))"

text \<open>
  Modelled from the spec: \<^verbatim>\<open>np.random.uniform(low, high, size)\<close> is a library routine
  outside src/. It gives \<open>size\<close> samples drawn uniformly between \<open>low\<close> and
  \<open>high\<close> (spec 4.4); without \<open>size\<close> it gives one sample.
\<close>

definition random_uniform :: "random_source \<Rightarrow> real \<Rightarrow> real \<Rightarrow> nat \<Rightarrow> buffer" where
  "random_uniform rs low high sz =
     map (\<lambda>i. low + (high - low) * uniform_draw rs i) [0..<sz]"

definition random_uniform1 :: "random_source \<Rightarrow> real \<Rightarrow> real \<Rightarrow> real" where
  "random_uniform1 rs low high = low + (high - low) * uniform_draw rs 0"

text \<open>
  The assignment \<^verbatim>\<open>noise[indices] = values\<close>: the pairs are stored in order, so a
  repeated index keeps the last value; a negative index counts from the end, and an index
  outside the array raises.
\<close>

fun assign_at :: "buffer \<Rightarrow> (int \<times> real) list \<Rightarrow> error + buffer" where
  "assign_at ns [] = Inr ns"
| "assign_at ns ((i, v) # rest) =
     (let n = int (length ns); j = (if i < 0 then i + n else i)
      in if 0 \<le> j \<and> j < n then assign_at (ns[nat j := v]) rest else Inl IndexError)"

text \<open>
  Modelled from the spec: \<^verbatim>\<open>scipy.signal.lfilter(b, a, x)\<close> is a library routine
  outside src/. Spec 4.2: a causal linear recursive filter, the standard difference
  equation \<open>a\<^sub>0 y\<^sub>n = b\<^sub>0 x\<^sub>n + b\<^sub>1 x\<^sub>n\<^sub>-\<^sub>1 + \<dots> - a\<^sub>1 y\<^sub>n\<^sub>-\<^sub>1 - \<dots>\<close> with zero initial state.
  \<open>xh\<close> and \<open>yh\<close> hold the inputs and outputs seen so far, newest first; \<open>zip\<close>
  cuts the coefficients at the history's length, which is the zero state before index 0.
  A zero leading denominator coefficient raises.
\<close>

definition dot :: "real list \<Rightarrow> real list \<Rightarrow> real" where
  "dot cs hs = sum_list (map2 (*) cs hs)"

fun lfilter_run :: "real list \<Rightarrow> real list \<Rightarrow> buffer \<Rightarrow> buffer \<Rightarrow> buffer \<Rightarrow> buffer" where
  "lfilter_run b a xh yh [] = []"
| "lfilter_run b a xh yh (x # xs) =
     (let y = (dot b (x # xh) - dot (tl a) yh) / hd a
      in y # lfilter_run b a (x # xh) (y # yh) xs)"

definition lfilter :: "real list \<Rightarrow> real list \<Rightarrow> buffer \<Rightarrow> error + buffer" where
  "lfilter b a x =
     (if a = [] \<or> b = [] \<or> hd a = 0 then Inl ValueError
      else Inr (lfilter_run b a [] [] x))"

text \<open>Coefficients that \<open>lfilter\<close> accepts.\<close>

definition proper :: "real list \<times> real list \<Rightarrow> bool" where
  "proper c = (fst c \<noteq> [] \<and> snd c \<noteq> [] \<and> hd (snd c) \<noteq> 0)"

text \<open>
  Modelled from the spec: \<^verbatim>\<open>scipy.signal.butter(order, Wn, btype, analog=False)\<close> is a
  library routine outside src/. Spec 4.1 and 7: the design fails when a normalized cutoff
  is not strictly between 0 and 1, or when the low edge of a band is not below its high
  edge; the library also rejects a negative order and a wrong number of cutoffs. What it
  computes on accepted arguments, the pair (numerator, denominator), is the parameter
  \<open>D\<close>: the Butterworth design itself is not part of the repository.
\<close>

datatype btype = Low | High | Bandstop

type_synonym coefficients = "real list \<times> real list"

type_synonym designer = "int \<Rightarrow> real list \<Rightarrow> btype \<Rightarrow> coefficients"

definition butter :: "designer \<Rightarrow> int \<Rightarrow> real list \<Rightarrow> btype \<Rightarrow> error + coefficients" where
  "butter D order Wn bt =
     (if order < 0 then Inl ValueError
      else if \<exists>w \<in> set Wn. w \<le> 0 \<or> 1 \<le> w then Inl ValueError
      else if length Wn = (if bt = Bandstop then 2 else 1) then
        (if bt = Bandstop \<and> Wn ! 1 \<le> Wn ! 0 then Inl ValueError
         else Inr (D order Wn bt))
      else Inl ValueError)"

text \<open>
  Modelled from the spec: \<^verbatim>\<open>scipy.fft.fft(x)\<close> is a library routine outside src/.
  Spec 4.5: the discrete Fourier transform of the full buffer,
  \<open>X\<^sub>k = \<Sum>\<^sub>n x\<^sub>n exp (- 2 \<pi> i k n / N)\<close>; the library rejects an empty buffer.
\<close>

definition dft_coefficient :: "buffer \<Rightarrow> nat \<Rightarrow> complex" where
  "dft_coefficient xs k =
     (\<Sum>n < length xs.
        complex_of_real (xs ! n) * cis (- (2 * pi * real k * real n / real (length xs))))"

definition fft :: "buffer \<Rightarrow> error + complex list" where
  "fft xs =
     (if xs = [] then Inl ValueError
      else Inr (map (dft_coefficient xs) [0..<length xs]))"

text \<open>
  Modelled from the spec: \<^verbatim>\<open>scipy.fft.fftfreq(n, d)\<close> is a library routine outside
  src/. It gives the sample frequencies of a transform of \<open>n\<close> points spaced \<open>d\<close>
  apart: the multiples \<open>0, 1, \<dots>, (n - 1) div 2\<close> and then
  \<open>- (n div 2), \<dots>, - 1\<close> of \<open>1 / (n d)\<close>, a division that fails when \<open>n d\<close> is zero.
\<close>

definition fftfreq :: "nat \<Rightarrow> real \<Rightarrow> error + real list" where
  "fftfreq n d =
     (if real n * d = 0 then Inl ZeroDivisionError
      else
        let val = 1 / (real n * d);
            N = nat ((int n - 1) div 2 + 1);
            p1 = map int [0..<N];
            p2 = map (\<lambda>j. int j - int (n div 2)) [0..<n div 2]
        in Inr (map (\<lambda>i. real_of_int i * val) (p1 @ p2)))"

subsection \<open>SignalSynthesizer: \<^verbatim>\<open>generate_signal\<close>\<close>

definition generate_signal :: "string \<Rightarrow> real \<Rightarrow> real list \<Rightarrow> buffer" where
  "generate_signal signal_type frequency time =
     (if signal_type = ''sine'' then
        map (\<lambda>t. sin (2 * pi * frequency * t)) time
      else if signal_type = ''square'' then
        map (\<lambda>t. sgn (sin (2 * pi * frequency * t))) time
      else if signal_type = ''sawtooth'' then
        map (\<lambda>t. 2 * (t * frequency - of_int \<lfloor>0.5 + t * frequency\<rfloor>)) time
      else if signal_type = ''modulated'' then
        (let carrier_freq = 10; modulator_freq = 0.5
         in map (\<lambda>t. sin (2 * pi * carrier_freq * t) * sin (2 * pi * modulator_freq * t)) time)
      else
        map (\<lambda>t. sin (2 * pi * frequency * t)) time)"

subsection \<open>NoiseInjector: \<^verbatim>\<open>add_noise\<close>\<close>

definition add_noise :: "random_source \<Rightarrow> buffer \<Rightarrow> string \<Rightarrow> real \<Rightarrow> error + buffer" where
  "add_noise rs signal noise_type intensity =
     (if noise_type = ''gaussian'' then
        (case random_normal rs 0 intensity (length signal) of
           Inl e \<Rightarrow> Inl e
         | Inr noise \<Rightarrow> np_add signal noise)
      else if noise_type = ''impulse'' then
        (let noise = replicate (length signal) 0;
             num_impulses = nat \<lfloor>0.05 * real (length signal)\<rfloor>
         in case random_randint rs 0 (int (length signal)) num_impulses of
              Inl e \<Rightarrow> Inl e
            | Inr impulse_indices \<Rightarrow>
                (case assign_at noise
                        (zip impulse_indices
                           (random_uniform rs (- intensity * 2) (intensity * 2) num_impulses)) of
                   Inl e \<Rightarrow> Inl e
                 | Inr noise' \<Rightarrow> np_add signal noise'))
      else if noise_type = ''frequency_interference'' then
        (let interference_freq = random_uniform1 rs 0.5 5;
             noise = map (\<lambda>k. intensity * sin (2 * pi * interference_freq * real k))
                       [0..<length signal]
         in np_add signal noise)
      else
        np_add signal (replicate (length signal) 0))"

subsection \<open>FilterDesigner: the \<^verbatim>\<open>butter_*\<close> functions\<close>

text \<open>
  \<^verbatim>\<open>cutoff / nyquist\<close> divides two Python floats, which raises when the divisor is zero.
\<close>

definition py_div :: "real \<Rightarrow> real \<Rightarrow> error + real" where
  "py_div x y = (if y = 0 then Inl ZeroDivisionError else Inr (x / y))"

definition butter_lowpass :: "designer \<Rightarrow> real \<Rightarrow> real \<Rightarrow> int \<Rightarrow> error + coefficients" where
  "butter_lowpass D cutoff fs order =
     (let nyquist = 0.5 * fs
      in case py_div cutoff nyquist of
           Inl e \<Rightarrow> Inl e
         | Inr normal_cutoff \<Rightarrow> butter D order [normal_cutoff] Low)"

definition butter_highpass :: "designer \<Rightarrow> real \<Rightarrow> real \<Rightarrow> int \<Rightarrow> error + coefficients" where
  "butter_highpass D cutoff fs order =
     (let nyquist = 0.5 * fs
      in case py_div cutoff nyquist of
           Inl e \<Rightarrow> Inl e
         | Inr normal_cutoff \<Rightarrow> butter D order [normal_cutoff] High)"

definition butter_bandstop ::
  "designer \<Rightarrow> real \<Rightarrow> real \<Rightarrow> real \<Rightarrow> int \<Rightarrow> error + coefficients" where
  "butter_bandstop D lowcut highcut fs order =
     (let nyquist = 0.5 * fs
      in case py_div lowcut nyquist of
           Inl e \<Rightarrow> Inl e
         | Inr low \<Rightarrow>
             (case py_div highcut nyquist of
                Inl e \<Rightarrow> Inl e
              | Inr high \<Rightarrow> butter D order [low, high] Bandstop))"

text \<open>\<^verbatim>\<open>butter_filter\<close> of the audio application; \<open>btype\<close> is 'low' or 'high'.\<close>

definition butter_filter :: "designer \<Rightarrow> int \<Rightarrow> real \<Rightarrow> real \<Rightarrow> btype \<Rightarrow> error + coefficients" where
  "butter_filter D order cutoff fs bt =
     (let nyquist = 0.5 * fs
      in case py_div cutoff nyquist of
           Inl e \<Rightarrow> Inl e
         | Inr normal_cutoff \<Rightarrow> butter D order [normal_cutoff] bt)"

subsection \<open>FilterEngine: \<^verbatim>\<open>apply_filter\<close> and the audio filters\<close>

definition apply_filter :: "designer \<Rightarrow> buffer \<Rightarrow> string \<Rightarrow> real \<Rightarrow> real \<Rightarrow> error + buffer" where
  "apply_filter D signal filter_type cutoff fs =
     (case (if filter_type = ''Low-Pass (RC)'' then butter_lowpass D cutoff fs 5
            else if filter_type = ''High-Pass (RC)'' then butter_highpass D cutoff fs 5
            else if filter_type = ''Band-Stop'' then butter_bandstop D 0.5 5 fs 5
            else Inl ValueError) of
        Inl e \<Rightarrow> Inl e
      | Inr (b, a) \<Rightarrow> lfilter b a signal)"

definition apply_high_pass :: "designer \<Rightarrow> buffer \<Rightarrow> real \<Rightarrow> real \<Rightarrow> error + buffer" where
  "apply_high_pass D signal cutoff fs =
     (case butter_filter D 4 cutoff fs High of
        Inl e \<Rightarrow> Inl e
      | Inr (b, a) \<Rightarrow> lfilter b a signal)"

definition apply_low_pass :: "designer \<Rightarrow> buffer \<Rightarrow> real \<Rightarrow> real \<Rightarrow> error + buffer" where
  "apply_low_pass D signal cutoff fs =
     (case butter_filter D 4 cutoff fs Low of
        Inl e \<Rightarrow> Inl e
      | Inr (b, a) \<Rightarrow> lfilter b a signal)"

definition apply_band_pass ::
  "designer \<Rightarrow> buffer \<Rightarrow> real \<Rightarrow> real \<Rightarrow> real \<Rightarrow> error + buffer" where
  "apply_band_pass D signal lowcut highcut fs =
     (case butter_filter D 4 highcut fs Low of
        Inl e \<Rightarrow> Inl e
      | Inr (b_low, a_low) \<Rightarrow>
          (case butter_filter D 4 lowcut fs High of
             Inl e \<Rightarrow> Inl e
           | Inr (b_high, a_high) \<Rightarrow>
               (case lfilter b_low a_low signal of
                  Inl e \<Rightarrow> Inl e
                | Inr low_passed \<Rightarrow> lfilter b_high a_high low_passed)))"

text \<open>
  The two-stage composition in the words of spec 4.1 and 4.2: the low-pass at the high cutoff
  is applied to the input, the high-pass at the low cutoff to what it returns.
\<close>

definition band_pass_cascade ::
  "designer \<Rightarrow> buffer \<Rightarrow> real \<Rightarrow> real \<Rightarrow> real \<Rightarrow> error + buffer" where
  "band_pass_cascade D signal lowcut highcut fs =
     (case apply_low_pass D signal highcut fs of
        Inl e \<Rightarrow> Inl e
      | Inr intermediate \<Rightarrow> apply_high_pass D intermediate lowcut fs)"

subsection \<open>SpectrumAnalyzer: the transform in \<^verbatim>\<open>process_signal\<close>\<close>

text \<open>
  Lines 161 to 175 of \<^verbatim>\<open>process_signal\<close>: the frequency axis \<open>xf\<close> and the
  magnitudes plotted against it. The method fixes \<open>fs = 100\<close>; here it is an argument.
\<close>

definition spectrum :: "buffer \<Rightarrow> real \<Rightarrow> error + (real list \<times> real list)" where
  "spectrum signal fs =
     (let N = length signal
      in case py_div 1 fs of
           Inl e \<Rightarrow> Inl e
         | Inr T \<Rightarrow>
             (case fft signal of
                Inl e \<Rightarrow> Inl e
              | Inr yf \<Rightarrow>
                  (case fftfreq N T of
                     Inl e \<Rightarrow> Inl e
                   | Inr freqs \<Rightarrow>
                       (let xf = take (N div 2) freqs
                        in case py_div 2 (real N) of
                             Inl e \<Rightarrow> Inl e
                           | Inr scale \<Rightarrow>
                               Inr (xf, map (\<lambda>c. scale * cmod c) (take (N div 2) yf))))))"

section \<open>Properties\<close>

subsection \<open>Auxiliary facts\<close>

lemma length_lfilter_run: "length (lfilter_run b a xh yh xs) = length xs"
  by (induction xs arbitrary: xh yh) (simp_all add: Let_def)

lemma lfilter_length: "lfilter b a x = Inr y \<Longrightarrow> length y = length x"
  by (auto simp: lfilter_def length_lfilter_run split: if_splits)

lemma lfilter_proper:
  "proper (b, a) \<Longrightarrow> lfilter b a x = Inr (lfilter_run b a [] [] x)"
  by (simp add: proper_def lfilter_def)

lemma lfilter_empty: "proper (b, a) \<Longrightarrow> lfilter b a [] = Inr []"
  by (simp add: proper_def lfilter_def)

lemma apply_filter_length:
  "apply_filter D signal filter_type cutoff fs = Inr out \<Longrightarrow> length out = length signal"
  by (auto simp: apply_filter_def split: sum.splits prod.splits dest: lfilter_length)

lemma apply_band_pass_length:
  "apply_band_pass D signal lowcut highcut fs = Inr out \<Longrightarrow> length out = length signal"
  by (auto simp: apply_band_pass_def split: sum.splits prod.splits) (metis lfilter_length)

lemma np_add_zeros: "np_add xs (replicate (length xs) 0) = Inr xs"
  by (simp add: np_add_def map2_map_map zip_replicate2 map_idI)

lemma fftfreq_take:
  assumes "0 < n" "d \<noteq> 0"
  shows "\<exists>fr. fftfreq n d = Inr fr \<and>
           take (n div 2) fr = map (\<lambda>k. real k * (1 / (real n * d))) [0..<n div 2]"
proof -
  define M where "M = nat ((int n - 1) div 2 + 1)"
  define f where "f = (\<lambda>i. real_of_int i * (1 / (real n * d)))"
  define p2 where "p2 = map (\<lambda>j. int j - int (n div 2)) [0..<n div 2]"
  have le: "n div 2 \<le> M" using assms(1) unfolding M_def by linarith
  have val: "fftfreq n d = Inr (map f (map int [0..<M] @ p2))"
    using assms by (simp add: fftfreq_def Let_def M_def f_def p2_def)
  have "take (n div 2) (map int [0..<M] @ p2) = map int [0..<n div 2]"
    using le by (simp add: take_map min_def)
  then have "take (n div 2) (map f (map int [0..<M] @ p2)) = map f (map int [0..<n div 2])"
    by (simp only: take_map)
  also have "\<dots> = map (\<lambda>k. real k * (1 / (real n * d))) [0..<n div 2]"
    by (simp add: f_def)
  finally show ?thesis using val by simp
qed

subsection \<open>Synthesis\<close>

text \<open>
  C6: the 'modulated' kind ignores the requested frequency: any two requests give the same
  buffer, the pointwise product of a 10 Hz carrier and a 0.5 Hz modulator over the time grid.
\<close>

theorem modulated_ignores_frequency:
  "generate_signal ''modulated'' f1 time = generate_signal ''modulated'' f2 time \<and>
   generate_signal ''modulated'' f1 time =
     map (\<lambda>t. sin (2 * pi * 10 * t) * sin (2 * pi * 0.5 * t)) time"
  by (simp add: generate_signal_def)

subsection \<open>Noise injection\<close>

text \<open>
  C7: a noise kind that \<^verbatim>\<open>add_noise\<close> does not know adds an array of zeros: for every
  signal and every intensity the result is the input signal, element for element.
\<close>

theorem unknown_noise_unchanged:
  "noise_type \<notin> {''gaussian'', ''impulse'', ''frequency_interference''} \<Longrightarrow>
   add_noise rs signal noise_type intensity = Inr signal"
  by (simp add: add_noise_def np_add_zeros)

theorem unknown_noise_unchanged_witness:
  "''unknown'' \<notin> {''gaussian'', ''impulse'', ''frequency_interference''} \<and>
   add_noise \<lparr>normal_draw = \<lambda>i. 1, integer_draw = \<lambda>i. i, uniform_draw = \<lambda>i. 1/2\<rparr>
     [1, - 2, 0] ''unknown'' 7 = Inr [1, - 2, 0]"
  using unknown_noise_unchanged [where noise_type = "''unknown''"
      and rs = "\<lparr>normal_draw = \<lambda>i. 1, integer_draw = \<lambda>i. i, uniform_draw = \<lambda>i. 1/2\<rparr>"
      and signal = "[1, - 2, 0]" and intensity = 7]
  by simp

subsection \<open>Unknown kinds\<close>

text \<open>
  C9: of the three operations that take a kind, only \<^verbatim>\<open>apply_filter\<close> fails on one it
  does not know: it raises for every filter type outside its three, while
  \<^verbatim>\<open>generate_signal\<close> answers an unknown signal kind with the sine and
  \<^verbatim>\<open>add_noise\<close> answers an unknown noise kind with the unchanged signal.
\<close>

theorem only_filtering_rejects_unknown_kinds:
  "(filter_type \<notin> {''Low-Pass (RC)'', ''High-Pass (RC)'', ''Band-Stop''} \<longrightarrow>
      apply_filter D signal filter_type cutoff fs = Inl ValueError) \<and>
   (signal_type \<notin> {''sine'', ''square'', ''sawtooth'', ''modulated''} \<longrightarrow>
      generate_signal signal_type frequency time = generate_signal ''sine'' frequency time) \<and>
   (noise_type \<notin> {''gaussian'', ''impulse'', ''frequency_interference''} \<longrightarrow>
      add_noise rs signal noise_type intensity = Inr signal)"
  by (simp add: apply_filter_def generate_signal_def add_noise_def np_add_zeros)

theorem only_filtering_rejects_unknown_kinds_witness:
  "apply_filter (\<lambda>order Wn bt. ([1/2, 1/2], [1, - 1/2])) [4, 5] ''Butterworth Low-Pass'' 2.5 100
     = Inl ValueError \<and>
   generate_signal ''triangle'' 5 [0, 1/20] = [0, 1] \<and>
   add_noise \<lparr>normal_draw = \<lambda>i. 1, integer_draw = \<lambda>i. i, uniform_draw = \<lambda>i. 1/2\<rparr>
     [4, 5] ''pink'' 2 = Inr [4, 5]"
  using only_filtering_rejects_unknown_kinds [where filter_type = "''Butterworth Low-Pass''"
      and D = "\<lambda>order Wn bt. ([1/2, 1/2], [1, - 1/2])" and signal = "[4, 5]" and cutoff = "2.5"
      and fs = 100 and signal_type = "''triangle''" and frequency = 5 and time = "[0, 1/20]"
      and noise_type = "''pink''"
      and rs = "\<lparr>normal_draw = \<lambda>i. 1, integer_draw = \<lambda>i. i, uniform_draw = \<lambda>i. 1/2\<rparr>"
      and intensity = 2]
  by (simp add: generate_signal_def)

subsection \<open>Filtering\<close>

text \<open>
  C1: whatever \<^verbatim>\<open>apply_filter\<close> returns for a buffer has the buffer's length, for each
  filter kind it knows and every cutoff and sample rate (an unknown kind returns nothing);
  so has what \<^verbatim>\<open>apply_band_pass\<close> returns. And each of them does return a buffer
  of that length once its design has given coefficients that \<open>lfilter\<close> accepts.
\<close>

theorem filtered_length:
  "(\<forall>out. apply_filter D signal filter_type cutoff fs = Inr out \<longrightarrow>
      length out = length signal) \<and>
   (\<forall>out. apply_band_pass D signal lowcut highcut fs = Inr out \<longrightarrow>
      length out = length signal) \<and>
   (butter_lowpass D cutoff fs 5 = Inr c \<and> proper c \<longrightarrow>
      (\<exists>out. apply_filter D signal ''Low-Pass (RC)'' cutoff fs = Inr out \<and>
         length out = length signal)) \<and>
   (butter_highpass D cutoff fs 5 = Inr c \<and> proper c \<longrightarrow>
      (\<exists>out. apply_filter D signal ''High-Pass (RC)'' cutoff fs = Inr out \<and>
         length out = length signal)) \<and>
   (butter_bandstop D 0.5 5 fs 5 = Inr c \<and> proper c \<longrightarrow>
      (\<exists>out. apply_filter D signal ''Band-Stop'' cutoff fs = Inr out \<and>
         length out = length signal)) \<and>
   (butter_filter D 4 highcut fs Low = Inr c \<and> proper c \<and>
    butter_filter D 4 lowcut fs High = Inr c' \<and> proper c' \<longrightarrow>
      (\<exists>out. apply_band_pass D signal lowcut highcut fs = Inr out \<and>
         length out = length signal))"
proof (intro conjI)
  show "\<forall>out. apply_filter D signal filter_type cutoff fs = Inr out \<longrightarrow>
      length out = length signal"
    by (simp add: apply_filter_length)
  show "\<forall>out. apply_band_pass D signal lowcut highcut fs = Inr out \<longrightarrow>
      length out = length signal"
    by (simp add: apply_band_pass_length)
  show "butter_lowpass D cutoff fs 5 = Inr c \<and> proper c \<longrightarrow>
      (\<exists>out. apply_filter D signal ''Low-Pass (RC)'' cutoff fs = Inr out \<and>
         length out = length signal)"
    by (cases c) (simp add: apply_filter_def lfilter_proper length_lfilter_run)
  show "butter_highpass D cutoff fs 5 = Inr c \<and> proper c \<longrightarrow>
      (\<exists>out. apply_filter D signal ''High-Pass (RC)'' cutoff fs = Inr out \<and>
         length out = length signal)"
    by (cases c) (simp add: apply_filter_def lfilter_proper length_lfilter_run)
  show "butter_bandstop D 0.5 5 fs 5 = Inr c \<and> proper c \<longrightarrow>
      (\<exists>out. apply_filter D signal ''Band-Stop'' cutoff fs = Inr out \<and>
         length out = length signal)"
    by (cases c) (simp add: apply_filter_def lfilter_proper length_lfilter_run)
  show "butter_filter D 4 highcut fs Low = Inr c \<and> proper c \<and>
    butter_filter D 4 lowcut fs High = Inr c' \<and> proper c' \<longrightarrow>
      (\<exists>out. apply_band_pass D signal lowcut highcut fs = Inr out \<and>
         length out = length signal)"
    by (cases c; cases c') (simp add: apply_band_pass_def lfilter_proper length_lfilter_run)
qed

theorem filtered_length_witness:
  "apply_filter (\<lambda>order Wn bt. ([1/2, 1/2], [1, - 1/2])) [1, 2, 3] ''Low-Pass (RC)'' 2.5 100
     = Inr [1/2, 7/4, 27/8] \<and>
   length [1/2, 7/4, 27/8 :: real] = length [1, 2, 3 :: real] \<and>
   apply_band_pass (\<lambda>order Wn bt. ([1/2, 1/2], [1, - 1/2])) [1, 2, 3] 300 3400 44100
     = Inr [1/4, 5/4, 51/16] \<and>
   length [1/4, 5/4, 51/16 :: real] = length [1, 2, 3 :: real] \<and>
   butter_lowpass (\<lambda>order Wn bt. ([1/2, 1/2], [1, - 1/2])) 2.5 100 5
     = Inr ([1/2, 1/2], [1, - 1/2]) \<and>
   proper ([1/2, 1/2], [1, - 1/2])"
  using filtered_length [where D = "\<lambda>order Wn bt. ([1/2, 1/2], [1, - 1/2])"
      and signal = "[1, 2, 3]" and filter_type = "''Low-Pass (RC)''" and cutoff = "2.5"
      and fs = 100 and lowcut = 300 and highcut = 3400]
  by (simp add: apply_filter_def apply_band_pass_def butter_lowpass_def butter_filter_def
      py_div_def butter_def lfilter_def dot_def proper_def)

text \<open>
  C5: \<^verbatim>\<open>apply_band_pass\<close> is the cascade of the two single-edge filters: the low-pass
  designed at the high cutoff runs on the input, the high-pass designed at the low cutoff
  runs on its output, and that second output is the result, errors included.
\<close>

theorem band_pass_is_cascade:
  "apply_band_pass D signal lowcut highcut fs = band_pass_cascade D signal lowcut highcut fs"
  by (auto simp: apply_band_pass_def band_pass_cascade_def apply_low_pass_def
      apply_high_pass_def butter_filter_def py_div_def butter_def lfilter_def Let_def
      split: sum.splits prod.splits if_splits)

text \<open>
  C10: the 'Band-Stop' branch of \<^verbatim>\<open>apply_filter\<close> never reads its cutoff: any two
  cutoffs give the same result, the filter designed for the fixed band from 0.5 Hz to 5 Hz
  at order 5.
\<close>

theorem band_stop_ignores_cutoff:
  "apply_filter D signal ''Band-Stop'' c1 fs = apply_filter D signal ''Band-Stop'' c2 fs \<and>
   apply_filter D signal ''Band-Stop'' c1 fs =
     (case butter_bandstop D 0.5 5 fs 5 of
        Inl e \<Rightarrow> Inl e
      | Inr (b, a) \<Rightarrow> lfilter b a signal)"
  by (simp add: apply_filter_def)

subsection \<open>Filter design\<close>

text \<open>
  C4, as the code has it: for a sample rate other than zero and an order that is not negative,
  every design function divides each cutoff by the Nyquist frequency \<open>fs / 2\<close>. The
  single-cutoff designs (\<^verbatim>\<open>butter_lowpass\<close>, \<^verbatim>\<open>butter_highpass\<close>,
  \<^verbatim>\<open>butter_filter\<close>) fail with a ValueError exactly when the normalized cutoff is not
  strictly between 0 and 1; \<^verbatim>\<open>butter_bandstop\<close> fails exactly when one of its two
  normalized cutoffs is not strictly between 0 and 1 or the low one is not below the high
  one; otherwise they return the designed coefficients. The band-pass of
  \<^verbatim>\<open>apply_band_pass\<close> designs its two edges separately: it fails in its design exactly
  when one normalized cutoff is not strictly between 0 and 1, and does not compare the
  low cutoff with the high one.
\<close>

theorem design_validation:
  assumes "fs \<noteq> 0" and "0 \<le> order"
  shows
   "butter_lowpass D cutoff fs order =
      (if 0 < cutoff / (fs / 2) \<and> cutoff / (fs / 2) < 1
       then Inr (D order [cutoff / (fs / 2)] Low) else Inl ValueError) \<and>
    butter_highpass D cutoff fs order =
      (if 0 < cutoff / (fs / 2) \<and> cutoff / (fs / 2) < 1
       then Inr (D order [cutoff / (fs / 2)] High) else Inl ValueError) \<and>
    (bt \<in> {Low, High} \<longrightarrow> butter_filter D order cutoff fs bt =
      (if 0 < cutoff / (fs / 2) \<and> cutoff / (fs / 2) < 1
       then Inr (D order [cutoff / (fs / 2)] bt) else Inl ValueError)) \<and>
    butter_bandstop D lowcut highcut fs order =
      (if 0 < lowcut / (fs / 2) \<and> lowcut / (fs / 2) < 1 \<and>
          0 < highcut / (fs / 2) \<and> highcut / (fs / 2) < 1 \<and>
          lowcut / (fs / 2) < highcut / (fs / 2)
       then Inr (D order [lowcut / (fs / 2), highcut / (fs / 2)] Bandstop)
       else Inl ValueError) \<and>
    apply_band_pass D signal lowcut highcut fs =
      (if 0 < lowcut / (fs / 2) \<and> lowcut / (fs / 2) < 1 \<and>
          0 < highcut / (fs / 2) \<and> highcut / (fs / 2) < 1
       then (case D 4 [highcut / (fs / 2)] Low of (b_low, a_low) \<Rightarrow>
             (case D 4 [lowcut / (fs / 2)] High of (b_high, a_high) \<Rightarrow>
              (case lfilter b_low a_low signal of
                 Inl e \<Rightarrow> Inl e
               | Inr low_passed \<Rightarrow> lfilter b_high a_high low_passed)))
       else Inl ValueError)"
  using assms
  by (auto simp: butter_lowpass_def butter_highpass_def butter_filter_def butter_bandstop_def
      apply_band_pass_def py_div_def butter_def Let_def split: prod.splits)

theorem design_validation_witness:
  "(100 :: real) \<noteq> 0 \<and> (0 :: int) \<le> 5 \<and>
   butter_lowpass (\<lambda>order Wn bt. ([1/2, 1/2], [1, - 1/2])) 2.5 100 5 = Inr ([1/2, 1/2], [1, - 1/2]) \<and>
   butter_highpass (\<lambda>order Wn bt. ([1/2, 1/2], [1, - 1/2])) 50 100 5 = Inl ValueError \<and>
   butter_filter (\<lambda>order Wn bt. ([1/2, 1/2], [1, - 1/2])) 5 0 100 High = Inl ValueError \<and>
   butter_bandstop (\<lambda>order Wn bt. ([1/2, 1/2], [1, - 1/2])) 5 0.5 100 5 = Inl ValueError \<and>
   butter_bandstop (\<lambda>order Wn bt. ([1/2, 1/2], [1, - 1/2])) 0.5 5 100 5 = Inr ([1/2, 1/2], [1, - 1/2])"
  using design_validation [where fs = 100 and order = 5 and D = "\<lambda>order Wn bt. ([1/2, 1/2], [1, - 1/2])"
      and cutoff = "2.5" and lowcut = "0.5" and highcut = 5 and bt = High]
    design_validation [where fs = 100 and order = 5 and D = "\<lambda>order Wn bt. ([1/2, 1/2], [1, - 1/2])"
      and cutoff = 50 and lowcut = 5 and highcut = "0.5" and bt = High]
    design_validation [where fs = 100 and order = 5 and D = "\<lambda>order Wn bt. ([1/2, 1/2], [1, - 1/2])"
      and cutoff = 0 and lowcut = 5 and highcut = "0.5" and bt = High]
  by simp

text \<open>
  Where C4 as stated fails: the band-pass with its low cutoff above its high cutoff (both
  below Nyquist) filters without an error; a sample rate of zero raises a
  ZeroDivisionError in the division; a negative order is rejected though the cutoff is in
  range.
\<close>

theorem design_validation_counterexample:
  "apply_band_pass (\<lambda>order Wn bt. ([1/2, 1/2], [1, - 1/2])) [1, 2, 3] 3400 300 44100 = Inr [1/4, 5/4, 51/16] \<and>
   butter_lowpass (\<lambda>order Wn bt. ([1/2, 1/2], [1, - 1/2])) 2.5 0 5 = Inl ZeroDivisionError \<and>
   butter_lowpass (\<lambda>order Wn bt. ([1/2, 1/2], [1, - 1/2])) 2.5 100 (- 1) = Inl ValueError"
  by (simp add: apply_band_pass_def butter_lowpass_def butter_filter_def
      py_div_def butter_def lfilter_def dot_def)

subsection \<open>Spectral analysis\<close>

text \<open>
  C2, as the code has it: for a buffer of \<open>N > 0\<close> samples and a sample rate other than
  zero, the analysis returns \<open>N div 2\<close> frequencies and \<open>N div 2\<close> magnitudes; at each
  index \<open>k < N div 2\<close> the frequency is \<open>k fs / N\<close> and the magnitude is \<open>2 / N\<close> times
  the modulus of the \<open>k\<close>-th Fourier coefficient of the whole buffer, for even and odd
  \<open>N\<close> alike.
\<close>

theorem spectrum_entries:
  assumes "signal \<noteq> []" and "fs \<noteq> 0"
  shows "\<exists>xf mags. spectrum signal fs = Inr (xf, mags) \<and>
           length xf = length signal div 2 \<and> length mags = length signal div 2 \<and>
           (\<forall>k < length signal div 2.
              xf ! k = real k * fs / real (length signal) \<and>
              mags ! k = 2 / real (length signal) * cmod (dft_coefficient signal k))"
proof -
  let ?N = "length signal"
  have N: "0 < ?N" using assms(1) by simp
  obtain fr where fr: "fftfreq ?N (1 / fs) = Inr fr"
    and tk: "take (?N div 2) fr =
               map (\<lambda>k. real k * (1 / (real ?N * (1 / fs)))) [0..<?N div 2]"
    using fftfreq_take[OF N, of "1 / fs"] assms(2) by auto
  have sp: "spectrum signal fs =
      Inr (take (?N div 2) fr,
           map (\<lambda>c. 2 / real ?N * cmod c)
             (take (?N div 2) (map (dft_coefficient signal) [0..<?N])))"
    using assms N fr by (simp add: spectrum_def py_div_def fft_def Let_def)
  show ?thesis
    unfolding sp tk using N assms(2) by (simp add: take_map min_def)
qed

theorem spectrum_entries_witness:
  "[1, 2, 0, 1] \<noteq> ([] :: real list) \<and> (100 :: real) \<noteq> 0 \<and>
   (\<exists>xf mags. spectrum [1, 2, 0, 1] 100 = Inr (xf, mags) \<and>
      length xf = 2 \<and> length mags = 2 \<and> xf ! 0 = 0 \<and> xf ! 1 = 25 \<and> mags ! 0 = 2)"
proof -
  obtain xf mags where sp: "spectrum [1, 2, 0, 1] 100 = Inr (xf, mags)"
    and len: "length xf = length [1, 2, 0, 1 :: real] div 2"
      "length mags = length [1, 2, 0, 1 :: real] div 2"
    and ent: "\<forall>k < length [1, 2, 0, 1 :: real] div 2.
              xf ! k = real k * 100 / real (length [1, 2, 0, 1 :: real]) \<and>
              mags ! k = 2 / real (length [1, 2, 0, 1 :: real]) *
                cmod (dft_coefficient [1, 2, 0, 1] k)"
    using spectrum_entries [of "[1, 2, 0, 1]" 100] by auto
  have d0: "dft_coefficient [1, 2, 0, 1] 0 = 4"
    by (simp add: dft_coefficient_def lessThan_Suc numeral_eq_Suc)
  have "xf ! 0 = 0" "mags ! 0 = 2"
    using ent [rule_format, of 0] d0 by simp_all
  moreover have "xf ! 1 = 25"
    using ent [rule_format, of 1] by simp
  ultimately have "xf ! 0 = 0" "xf ! 1 = 25" "mags ! 0 = 2" by simp_all
  with sp len show ?thesis by simp
qed

text \<open>
  Where C2 as stated fails: the empty buffer has no spectrum of zero entries, the transform
  raises; and a sample rate of zero raises in \<^verbatim>\<open>1.0 / fs\<close>.
\<close>

theorem spectrum_entries_counterexample:
  "spectrum [] 100 = Inl ValueError \<and> spectrum [1, 2, 0, 1] 0 = Inl ZeroDivisionError"
  by (simp add: spectrum_def py_div_def fft_def)

subsection \<open>Empty buffers\<close>

text \<open>
  C8, as the code has it: over an empty time grid every signal kind gives the empty buffer;
  noise of every kind added to the empty signal gives the empty signal (for 'gaussian' when
  the intensity is not negative); \<^verbatim>\<open>apply_filter\<close> on the empty buffer returns nothing
  but the empty buffer, and does return it for each of its three kinds once the design has
  given coefficients that \<open>lfilter\<close> accepts.
\<close>

theorem empty_buffer_results:
  "generate_signal signal_type frequency [] = [] \<and>
   ((noise_type = ''gaussian'' \<longrightarrow> 0 \<le> intensity) \<longrightarrow>
      add_noise rs [] noise_type intensity = Inr []) \<and>
   (\<forall>out. apply_filter D [] filter_type cutoff fs = Inr out \<longrightarrow> out = []) \<and>
   (butter_lowpass D cutoff fs 5 = Inr c \<and> proper c \<longrightarrow>
      apply_filter D [] ''Low-Pass (RC)'' cutoff fs = Inr []) \<and>
   (butter_highpass D cutoff fs 5 = Inr c \<and> proper c \<longrightarrow>
      apply_filter D [] ''High-Pass (RC)'' cutoff fs = Inr []) \<and>
   (butter_bandstop D 0.5 5 fs 5 = Inr c \<and> proper c \<longrightarrow>
      apply_filter D [] ''Band-Stop'' cutoff fs = Inr [])"
proof (intro conjI)
  show "generate_signal signal_type frequency [] = []"
    by (simp add: generate_signal_def)
  show "(noise_type = ''gaussian'' \<longrightarrow> 0 \<le> intensity) \<longrightarrow>
      add_noise rs [] noise_type intensity = Inr []"
    by (simp add: add_noise_def random_normal_def random_randint_def random_uniform_def
        np_add_def)
  show "\<forall>out. apply_filter D [] filter_type cutoff fs = Inr out \<longrightarrow> out = []"
    using apply_filter_length [of D "[]" filter_type cutoff fs] by simp
  show "butter_lowpass D cutoff fs 5 = Inr c \<and> proper c \<longrightarrow>
      apply_filter D [] ''Low-Pass (RC)'' cutoff fs = Inr []"
    by (cases c) (simp add: apply_filter_def lfilter_empty)
  show "butter_highpass D cutoff fs 5 = Inr c \<and> proper c \<longrightarrow>
      apply_filter D [] ''High-Pass (RC)'' cutoff fs = Inr []"
    by (cases c) (simp add: apply_filter_def lfilter_empty)
  show "butter_bandstop D 0.5 5 fs 5 = Inr c \<and> proper c \<longrightarrow>
      apply_filter D [] ''Band-Stop'' cutoff fs = Inr []"
    by (cases c) (simp add: apply_filter_def lfilter_empty)
qed

theorem empty_buffer_results_witness:
  "generate_signal ''square'' 5 [] = [] \<and>
   add_noise \<lparr>normal_draw = \<lambda>i. 1, integer_draw = \<lambda>i. i, uniform_draw = \<lambda>i. 1/2\<rparr> [] ''gaussian'' 0.5 = Inr [] \<and>
   add_noise \<lparr>normal_draw = \<lambda>i. 1, integer_draw = \<lambda>i. i, uniform_draw = \<lambda>i. 1/2\<rparr> [] ''impulse'' 0.5 = Inr [] \<and>
   apply_filter (\<lambda>order Wn bt. ([1/2, 1/2], [1, - 1/2])) [] ''Low-Pass (RC)'' 2.5 100 = Inr [] \<and>
   apply_filter (\<lambda>order Wn bt. ([1/2, 1/2], [1, - 1/2])) [] ''High-Pass (RC)'' 2.5 100 = Inr [] \<and>
   apply_filter (\<lambda>order Wn bt. ([1/2, 1/2], [1, - 1/2])) [] ''Band-Stop'' 2.5 100 = Inr []"
proof -
  let ?D = "\<lambda>(order :: int) (Wn :: real list) (bt :: btype). ([1/2, 1/2], [1, - 1/2 :: real])"
  let ?rs = "\<lparr>normal_draw = \<lambda>i. 1, integer_draw = \<lambda>i. i, uniform_draw = \<lambda>i. 1/2\<rparr>"
  have p: "proper ([1/2, 1/2], [1, - 1/2])" by (simp add: proper_def)
  have d: "butter_lowpass ?D 2.5 100 5 = Inr ([1/2, 1/2], [1, - 1/2])"
    "butter_highpass ?D 2.5 100 5 = Inr ([1/2, 1/2], [1, - 1/2])"
    "butter_bandstop ?D 0.5 5 100 5 = Inr ([1/2, 1/2], [1, - 1/2])"
    by (simp_all add: butter_lowpass_def butter_highpass_def butter_bandstop_def py_div_def
        butter_def)
  show ?thesis
    using p d
      empty_buffer_results [where signal_type = "''square''" and frequency = 5
        and noise_type = "''gaussian''" and intensity = "0.5" and rs = ?rs and D = ?D
        and cutoff = "2.5" and fs = 100 and c = "([1/2, 1/2], [1, - 1/2])"]
      empty_buffer_results [where noise_type = "''impulse''" and intensity = "0.5" and rs = ?rs]
    by simp
qed

text \<open>
  Where C8 as stated fails: on the empty buffer \<^verbatim>\<open>apply_filter\<close> still raises for a
  kind it does not know (one the filter menu offers) and for a cutoff at Nyquist, and the
  spectral analysis raises.
\<close>

theorem empty_buffer_counterexample:
  "apply_filter (\<lambda>order Wn bt. ([1/2, 1/2], [1, - 1/2])) [] ''Butterworth Low-Pass'' 2.5 100 = Inl ValueError \<and>
   apply_filter (\<lambda>order Wn bt. ([1/2, 1/2], [1, - 1/2])) [] ''Low-Pass (RC)'' 50 100 = Inl ValueError \<and>
   spectrum [] 100 = Inl ValueError"
  by (simp add: apply_filter_def butter_lowpass_def py_div_def butter_def spectrum_def fft_def)

end
